theory Spec2Isabelle
  imports Main
begin

section \<open>Python strings\<close>

text \<open>
  A Python \<open>str\<close> is a sequence of Unicode code points. The source holds code points
  above 255 (the cross mark in the message of \<open>get_client\<close>), and \<open>str.strip\<close>
  removes white space beyond ASCII, so a string is modelled as the list of its code
  points. \<open>lit\<close> turns a literal of ASCII characters into such a list.
\<close>

type_synonym str = "nat list"

definition lit :: "string \<Rightarrow> str" where
  "lit cs = map of_char cs"

abbreviation ord :: "char \<Rightarrow> nat" where
  "ord c \<equiv> of_char c"

text \<open>
  \<open>str.isspace\<close> on one code point: the characters of bidirectional type WS, B or S
  and of category Zs, as CPython's \<open>_PyUnicode_IsWhitespace\<close> lists them.
\<close>

definition isspace :: "nat \<Rightarrow> bool" where
  "isspace c =
     ((9 \<le> c \<and> c \<le> 13) \<or> (28 \<le> c \<and> c \<le> 32) \<or> c = 133 \<or> c = 160 \<or> c = 5760 \<or>
      (8192 \<le> c \<and> c \<le> 8202) \<or> c = 8232 \<or> c = 8233 \<or> c = 8239 \<or> c = 8287 \<or>
      c = 12288)"

text \<open>\<open>s.strip()\<close>: white space is dropped at both ends.\<close>

definition strip :: "str \<Rightarrow> str" where
  "strip s = rev (dropWhile isspace (rev (dropWhile isspace s)))"

definition startswith :: "str \<Rightarrow> str \<Rightarrow> bool" where
  "startswith s p = (take (length p) s = p)"

definition endswith :: "str \<Rightarrow> str \<Rightarrow> bool" where
  "endswith s p = (length p \<le> length s \<and> drop (length s - length p) s = p)"

text \<open>
  \<open>s.find(c)\<close> and \<open>s.rfind(c)\<close> for a one-character needle: the index of the first
  (last) occurrence, and \<open>-1\<close> when there is none.
\<close>

fun str_find :: "str \<Rightarrow> nat \<Rightarrow> int" where
  "str_find [] c = - 1"
| "str_find (x # xs) c =
     (if x = c then 0
      else (let i = str_find xs c in if i = - 1 then - 1 else i + 1))"

definition str_rfind :: "str \<Rightarrow> nat \<Rightarrow> int" where
  "str_rfind s c =
     (let i = str_find (rev s) c
      in if i = - 1 then - 1 else int (length s) - 1 - i)"

text \<open>
  \<open>s[a:b]\<close>: a negative bound counts from the end, and both bounds are clamped to the
  string.
\<close>

definition slice_bound :: "nat \<Rightarrow> int \<Rightarrow> nat" where
  "slice_bound n i = (if i < 0 then nat (max 0 (i + int n)) else min (nat i) n)"

definition slice :: "str \<Rightarrow> int \<Rightarrow> int \<Rightarrow> str" where
  "slice s a b = drop (slice_bound (length s) a) (take (slice_bound (length s) b) s)"

section \<open>The two fence patterns\<close>

text \<open>\<open>[a-zA-Z]\<close> in a \<open>str\<close> pattern without flags: the ASCII letters only.\<close>

definition ascii_letter :: "nat \<Rightarrow> bool" where
  "ascii_letter c = ((65 \<le> c \<and> c \<le> 90) \<or> (97 \<le> c \<and> c \<le> 122))"

text \<open>
  \<^verbatim>\<open>re.sub(r"^```[a-zA-Z]*\n?", "", s)\<close>. Without \<open>re.MULTILINE\<close> the anchor \<open>^\<close> matches
  at index 0 only, so at most one match is replaced: three backticks, then the letters
  that follow (the star is greedy), then one line feed when there is one.
\<close>

definition sub_leading_fence :: "str \<Rightarrow> str" where
  "sub_leading_fence s =
     (if startswith s (lit ''```'')
      then (case dropWhile ascii_letter (drop 3 s) of
              [] \<Rightarrow> []
            | c # r \<Rightarrow> if c = 10 then r else c # r)
      else s)"

text \<open>
  \<^verbatim>\<open>re.sub(r"```$", "", s)\<close>. Without \<open>re.MULTILINE\<close> the anchor \<open>$\<close> matches at the end of
  the string and also just before a line feed that ends the string. The two cases
  exclude each other and each admits one match, which is deleted; in the second case the
  line feed stays.
\<close>

definition sub_trailing_fence :: "str \<Rightarrow> str" where
  "sub_trailing_fence s =
     (if endswith s (lit ''```'') then take (length s - 3) s
      else if endswith s (lit ''```\<newline>'') then take (length s - 4) s @ [10]
      else s)"

section \<open>The front end's sanitizer (app.py)\<close>

text \<open>
  \<^verbatim>\<open>
  def clean_json_output(raw: str):
      if not raw:
          return "{}"
      cleaned = re.sub(r"^```[a-zA-Z]*\n?", "", raw.strip())
      cleaned = re.sub(r"```$", "", cleaned)
      start = cleaned.find("{")
      end = cleaned.rfind("}")
      if start != -1 and end != -1:
          cleaned = cleaned[start:end + 1]
      return cleaned
  \<close>
\<close>

definition clean_json_output :: "str \<Rightarrow> str" where
  "clean_json_output raw =
     (if raw = [] then lit ''{}''
      else
        (let cleaned = sub_leading_fence (strip raw);
             cleaned = sub_trailing_fence cleaned;
             start = str_find cleaned (ord CHR ''{'');
             end = str_rfind cleaned (ord CHR ''}'')
         in if start \<noteq> - 1 \<and> end \<noteq> - 1 then slice cleaned start (end + 1)
            else cleaned))"

section \<open>JSON values\<close>

text \<open>
  The values that \<open>json.loads\<close> returns and \<open>json.dumps\<close> and \<open>jsonify\<close> accept:
  \<open>None\<close>, a \<open>bool\<close>, a number, a \<open>str\<close>, a \<open>list\<close>, or a \<open>dict\<close> with \<open>str\<close> keys,
  kept in insertion order. A number is kept as its literal (\<open>NaN\<close>, \<open>Infinity\<close> and
  \<open>-Infinity\<close> included); of Python's \<open>int\<close> and \<open>float\<close> only the test for zero is
  modelled.
\<close>

datatype json =
    JNull
  | JBool bool
  | JNum str
  | JStr str
  | JArr "json list"
  | JObj "(str \<times> json) list"

text \<open>\<open>d.get(k)\<close> gives \<open>None\<close> for a missing key; \<open>d[k] = v\<close> keeps the key's place.\<close>

definition dict_get :: "(str \<times> json) list \<Rightarrow> str \<Rightarrow> json option" where
  "dict_get d k = map_of d k"

fun dict_set :: "(str \<times> json) list \<Rightarrow> str \<Rightarrow> json \<Rightarrow> (str \<times> json) list" where
  "dict_set [] k v = [(k, v)]"
| "dict_set (p # ps) k v = (if fst p = k then (k, v) # ps else p # dict_set ps k v)"

text \<open>
  Truth value of a JSON value (\<open>not x\<close>, \<open>x or y\<close>). A number is false when the
  \<open>int\<close> or \<open>float\<close> read from its literal is zero. The literal is a sign, the digits of
  the integer part, the digits of a fraction and a signed exponent: with \<open>m\<close> the
  number that the digits of the integer part and of the fraction spell, and \<open>e\<close> the
  exponent less the number of fraction digits, its value is \<open>m * 10 ^ e\<close>. An \<open>int\<close>
  is zero when \<open>m\<close> is. \<open>float\<close> rounds to the nearest double, ties to even, and the
  smallest double above zero is \<open>2 ^ -1074\<close>, so the \<open>float\<close> is zero exactly when
  \<open>m * 10 ^ e\<close> is at most \<open>2 ^ -1075\<close>. \<open>NaN\<close> and the infinities are true.
\<close>

definition isdigit :: "nat \<Rightarrow> bool" where
  "isdigit c = (48 \<le> c \<and> c \<le> 57)"

definition digits_value :: "str \<Rightarrow> nat" where
  "digits_value ds = foldl (\<lambda>a c. 10 * a + (c - 48)) 0 ds"

text \<open>The exponent of a literal, given its text from the letter \<open>e\<close> on; 0 when none.\<close>

definition literal_exponent :: "str \<Rightarrow> int" where
  "literal_exponent r =
     (case r of
        [] \<Rightarrow> 0
      | c # t \<Rightarrow>
          (case t of
             [] \<Rightarrow> 0
           | s # t' \<Rightarrow>
               if s = ord CHR ''-'' then - int (digits_value t')
               else if s = ord CHR ''+'' then int (digits_value t')
               else int (digits_value t)))"

definition nonzero_literal :: "str \<Rightarrow> bool" where
  "nonzero_literal l =
     (if l = lit ''NaN'' \<or> l = lit ''Infinity'' \<or> l = lit ''-Infinity'' then True
      else
        (let u = (case l of [] \<Rightarrow> [] | c # t \<Rightarrow> if c = ord CHR ''-'' then t else l);
             ip = takeWhile isdigit u;
             r = dropWhile isdigit u;
             fp = (case r of
                     [] \<Rightarrow> []
                   | c # t \<Rightarrow> if c = ord CHR ''.'' then takeWhile isdigit t else []);
             r2 = (case r of
                     [] \<Rightarrow> []
                   | c # t \<Rightarrow> if c = ord CHR ''.'' then dropWhile isdigit t else r);
             m = digits_value (ip @ fp);
             e = literal_exponent r2 - int (length fp)
         in if m = 0 then False
            else if e < 0 then 10 ^ nat (- e) < m * 2 ^ 1075
            else True))"

fun truthy :: "json \<Rightarrow> bool" where
  "truthy JNull = False"
| "truthy (JBool b) = b"
| "truthy (JNum l) = nonzero_literal l"
| "truthy (JStr s) = (s \<noteq> [])"
| "truthy (JArr xs) = (xs \<noteq> [])"
| "truthy (JObj d) = (d \<noteq> [])"

section \<open>json.loads\<close>

text \<open>
  \<open>json.loads\<close> is library code. It is modelled as the grammar CPython's decoder
  accepts by default (\<open>strict=True\<close>): the JSON grammar, white space being blank, tab,
  line feed and carriage return, with the three extra literals \<open>NaN\<close>, \<open>Infinity\<close> and
  \<open>-Infinity\<close>. The text is cut into tokens, and the tokens are read by a machine with
  an explicit stack of the containers that are open. \<open>None\<close> stands for
  \<open>JSONDecodeError\<close>. Limits of the interpreter (recursion depth, the digit limit of
  \<open>int\<close>) are not modelled.
\<close>

datatype token =
    TLBrace | TRBrace | TLBracket | TRBracket | TColon | TComma
  | TString str | TNumber str | TTrue | TFalse | TNull

definition is_hex :: "nat \<Rightarrow> bool" where
  "is_hex c = (isdigit c \<or> (65 \<le> c \<and> c \<le> 70) \<or> (97 \<le> c \<and> c \<le> 102))"

definition prepend :: "str \<Rightarrow> (str \<times> str) option \<Rightarrow> (str \<times> str) option" where
  "prepend xs r = (case r of None \<Rightarrow> None | Some (l, rest) \<Rightarrow> Some (xs @ l, rest))"

text \<open>
  The body of a string, read after its opening quote: the text up to the closing quote,
  escapes as written, and what follows the closing quote. A control character, an
  unknown escape and a \<open>\u\<close> without four hex digits are errors.
\<close>

fun scan_string :: "str \<Rightarrow> (str \<times> str) option" where
  "scan_string [] = None"
| "scan_string (c # cs) =
     (if c = ord CHR 0x22 then Some ([], cs)
      else if c = ord CHR 0x5C then
        (case cs of
           [] \<Rightarrow> None
         | e # r \<Rightarrow>
             if e \<in> set (lit ''\"/bfnrt'') \<or> e = ord CHR 0x5C
             then prepend [c, e] (scan_string r)
             else if e = ord CHR ''u'' then
               (case r of
                  h1 # h2 # h3 # h4 # r' \<Rightarrow>
                    if is_hex h1 \<and> is_hex h2 \<and> is_hex h3 \<and> is_hex h4
                    then prepend [c, e, h1, h2, h3, h4] (scan_string r')
                    else None
                | _ \<Rightarrow> None)
             else None)
      else if c < 32 then None
      else prepend [c] (scan_string cs))"

text \<open>The string that the body of a string literal denotes.\<close>

definition hex_value :: "nat \<Rightarrow> nat" where
  "hex_value c = (if isdigit c then c - 48 else if c \<le> 70 then c - 55 else c - 87)"

definition hex4_value :: "nat \<Rightarrow> nat \<Rightarrow> nat \<Rightarrow> nat \<Rightarrow> nat" where
  "hex4_value a b c d =
     ((hex_value a * 16 + hex_value b) * 16 + hex_value c) * 16 + hex_value d"

definition unescape :: "nat \<Rightarrow> nat" where
  "unescape e =
     (if e = ord CHR ''b'' then 8 else if e = ord CHR ''f'' then 12
      else if e = ord CHR ''n'' then 10 else if e = ord CHR ''r'' then 13
      else if e = ord CHR ''t'' then 9 else e)"

fun decode :: "str \<Rightarrow> str" where
  "decode [] = []"
| "decode (c # cs) =
     (if c = ord CHR 0x5C then
        (case cs of
           [] \<Rightarrow> []
         | e # r \<Rightarrow>
             if e = ord CHR ''u'' then
               (case r of
                  h1 # h2 # h3 # h4 # r' \<Rightarrow>
                    (let u = hex4_value h1 h2 h3 h4
                     in if 55296 \<le> u \<and> u \<le> 56319 then
                          (case r' of
                             b # v # k1 # k2 # k3 # k4 # r'' \<Rightarrow>
                               (let u2 = hex4_value k1 k2 k3 k4
                                in if b = ord CHR 0x5C \<and> v = ord CHR ''u'' \<and>
                                      56320 \<le> u2 \<and> u2 \<le> 57343
                                   then (65536 + (u - 55296) * 1024 + (u2 - 56320)) # decode r''
                                   else u # decode r')
                           | _ \<Rightarrow> u # decode r')
                        else u # decode r')
                | _ \<Rightarrow> [])
             else unescape e # decode r)
      else c # decode cs)"

text \<open>
  A number, by the decoder's pattern
  \<^verbatim>\<open>(-?(?:0|[1-9][0-9]*))(\.[0-9]+)?([eE][-+]?[0-9]+)?\<close>: the integer part is required,
  the fraction and the exponent are taken when they match in full.
\<close>

definition scan_int :: "str \<Rightarrow> (str \<times> str) option" where
  "scan_int s =
     (let (sg, r) = (case s of
                       [] \<Rightarrow> ([], [])
                     | c # t \<Rightarrow> if c = ord CHR ''-'' then ([c], t) else ([], s))
      in case r of
           [] \<Rightarrow> None
         | d # t \<Rightarrow>
             if d = ord CHR ''0'' then Some (sg @ [d], t)
             else if isdigit d then Some (sg @ d # takeWhile isdigit t, dropWhile isdigit t)
             else None)"

definition scan_frac :: "str \<Rightarrow> str \<times> str" where
  "scan_frac s =
     (case s of
        [] \<Rightarrow> ([], s)
      | c # t \<Rightarrow>
          if c = ord CHR ''.'' \<and> takeWhile isdigit t \<noteq> []
          then (c # takeWhile isdigit t, dropWhile isdigit t)
          else ([], s))"

definition scan_exp :: "str \<Rightarrow> str \<times> str" where
  "scan_exp s =
     (case s of
        [] \<Rightarrow> ([], s)
      | c # t \<Rightarrow>
          if c = ord CHR ''e'' \<or> c = ord CHR ''E'' then
            (let (sg, u) = (case t of
                              [] \<Rightarrow> ([], t)
                            | x # v \<Rightarrow>
                                if x = ord CHR ''-'' \<or> x = ord CHR ''+'' then ([x], v)
                                else ([], t))
             in if takeWhile isdigit u \<noteq> []
                then (c # sg @ takeWhile isdigit u, dropWhile isdigit u)
                else ([], s))
          else ([], s))"

definition scan_number :: "str \<Rightarrow> (str \<times> str) option" where
  "scan_number s =
     (case scan_int s of
        None \<Rightarrow> None
      | Some (i, r) \<Rightarrow>
          (let (f, r2) = scan_frac r; (e, r3) = scan_exp r2
           in Some (i @ f @ e, r3)))"

text \<open>
  One token at the head of a text that does not start with white space, in the order of
  the decoder's \<open>scan_once\<close>: string, containers, \<open>null\<close>, \<open>true\<close>, \<open>false\<close>, a number,
  and then \<open>NaN\<close>, \<open>Infinity\<close> and \<open>-Infinity\<close>.
\<close>

definition next_token :: "str \<Rightarrow> (token \<times> str) option" where
  "next_token s =
     (case s of
        [] \<Rightarrow> None
      | c # cs \<Rightarrow>
          if c = ord CHR 0x22 then
            (case scan_string cs of
               None \<Rightarrow> None
             | Some (l, r) \<Rightarrow> Some (TString l, r))
          else if c = ord CHR ''{'' then Some (TLBrace, cs)
          else if c = ord CHR ''}'' then Some (TRBrace, cs)
          else if c = ord CHR ''['' then Some (TLBracket, cs)
          else if c = ord CHR '']'' then Some (TRBracket, cs)
          else if c = ord CHR '':'' then Some (TColon, cs)
          else if c = ord CHR '','' then Some (TComma, cs)
          else if startswith s (lit ''null'') then Some (TNull, drop 4 s)
          else if startswith s (lit ''true'') then Some (TTrue, drop 4 s)
          else if startswith s (lit ''false'') then Some (TFalse, drop 5 s)
          else
            (case scan_number s of
               Some (l, r) \<Rightarrow> Some (TNumber l, r)
             | None \<Rightarrow>
                 if startswith s (lit ''NaN'') then Some (TNumber (lit ''NaN''), drop 3 s)
                 else if startswith s (lit ''Infinity'')
                 then Some (TNumber (lit ''Infinity''), drop 8 s)
                 else if startswith s (lit ''-Infinity'')
                 then Some (TNumber (lit ''-Infinity''), drop 9 s)
                 else None))"

definition json_ws :: "nat \<Rightarrow> bool" where
  "json_ws c = (c = 32 \<or> c = 9 \<or> c = 10 \<or> c = 13)"

text \<open>The tokens of a text; white space between tokens is skipped.\<close>

function tokenize :: "str \<Rightarrow> token list option" where
  "tokenize [] = Some []"
| "tokenize (c # cs) =
     (if json_ws c then tokenize cs
      else (case next_token (c # cs) of
              None \<Rightarrow> None
            | Some (t, r) \<Rightarrow>
                (case tokenize r of None \<Rightarrow> None | Some ts \<Rightarrow> Some (t # ts))))"
  by pat_completeness auto
termination
proof (relation "measure length")
  show "wf (measure length)" by simp
next
  fix c :: nat and cs :: str
  show "(cs, c # cs) \<in> measure length" by simp
next
  fix c :: nat and cs :: str and x2 :: "token \<times> str" and t :: token and r :: str
  assume nt: "next_token (c # cs) = Some x2" and x2: "(t, r) = x2"
  have ss: "scan_string s = Some (l, r) \<Longrightarrow> length r \<le> length s" for s l r
  proof (induction s arbitrary: l r rule: scan_string.induct)
    case 1
    then show ?case by simp
  next
    case (2 c cs)
    then show ?case
      by (fastforce simp: prepend_def split: if_splits list.splits option.splits)
  qed
  have si: "scan_int s = Some (l, r) \<Longrightarrow> length r < length s" for s l r
    by (auto simp: scan_int_def Let_def split: list.splits if_splits
        intro: le_imp_less_Suc le_SucI length_dropWhile_le)
  have sf: "length (snd (scan_frac s)) \<le> length s" for s
    by (auto simp: scan_frac_def split: list.splits intro: le_SucI length_dropWhile_le)
  have se: "length (snd (scan_exp s)) \<le> length s" for s
    by (auto simp: scan_exp_def Let_def split: list.splits intro: le_SucI length_dropWhile_le)
  have sn: "scan_number s = Some (l, r) \<Longrightarrow> length r < length s" for s l r
  proof -
    assume a: "scan_number s = Some (l, r)"
    then obtain i r1 where i: "scan_int s = Some (i, r1)"
      by (auto simp: scan_number_def split: option.splits)
    with a have "r = snd (scan_exp (snd (scan_frac r1)))"
      by (auto simp: scan_number_def Let_def split: prod.splits)
    then have "length r \<le> length r1"
      using sf [of r1] se [of "snd (scan_frac r1)"] by simp
    with si [OF i] show ?thesis by simp
  qed
  from nt x2 have "length r < length (c # cs)"
    by (auto simp: next_token_def split: if_splits option.splits prod.splits
        dest!: ss sn)
  then show "(r, c # cs) \<in> measure length" by simp
qed

text \<open>
  The containers that are open, innermost first: an array with the elements read so far
  (the last one first), an object with its members so far, and an object whose next key
  has been read and whose value is awaited.
\<close>

datatype frame =
    FArr "json list"
  | FObj "(str \<times> json) list"
  | FKey "(str \<times> json) list" str

datatype pstate =
    Expect_value "frame list"
  | Expect_value_or_close "frame list"
  | Expect_key_or_close "frame list"
  | Expect_key "frame list"
  | Expect_colon "frame list"
  | After_value "frame list"
  | Complete json

text \<open>A finished value goes to the innermost open container, or ends the document.\<close>

fun deliver :: "json \<Rightarrow> frame list \<Rightarrow> pstate option" where
  "deliver v [] = Some (Complete v)"
| "deliver v (FArr es # st) = Some (After_value (FArr (v # es) # st))"
| "deliver v (FKey ms k # st) = Some (After_value (FObj (dict_set ms k v) # st))"
| "deliver v (FObj ms # st) = None"

fun begin_value :: "frame list \<Rightarrow> token \<Rightarrow> pstate option" where
  "begin_value st TLBrace = Some (Expect_key_or_close (FObj [] # st))"
| "begin_value st TLBracket = Some (Expect_value_or_close (FArr [] # st))"
| "begin_value st (TString l) = deliver (JStr (decode l)) st"
| "begin_value st (TNumber l) = deliver (JNum l) st"
| "begin_value st TTrue = deliver (JBool True) st"
| "begin_value st TFalse = deliver (JBool False) st"
| "begin_value st TNull = deliver JNull st"
| "begin_value st TRBrace = None"
| "begin_value st TRBracket = None"
| "begin_value st TColon = None"
| "begin_value st TComma = None"

fun read_key :: "frame list \<Rightarrow> token \<Rightarrow> pstate option" where
  "read_key (FObj ms # st) (TString l) = Some (Expect_colon (FKey ms (decode l) # st))"
| "read_key st t = None"

fun close_array :: "frame list \<Rightarrow> pstate option" where
  "close_array (FArr es # st) = deliver (JArr (rev es)) st"
| "close_array st = None"

fun close_object :: "frame list \<Rightarrow> pstate option" where
  "close_object (FObj ms # st) = deliver (JObj ms) st"
| "close_object st = None"

fun after_value :: "frame list \<Rightarrow> token \<Rightarrow> pstate option" where
  "after_value (FArr es # st) t =
     (if t = TComma then Some (Expect_value (FArr es # st))
      else if t = TRBracket then close_array (FArr es # st)
      else None)"
| "after_value (FObj ms # st) t =
     (if t = TComma then Some (Expect_key (FObj ms # st))
      else if t = TRBrace then close_object (FObj ms # st)
      else None)"
| "after_value st t = None"

text \<open>One token. A token after the document is complete is the error "Extra data".\<close>

fun step :: "pstate \<Rightarrow> token \<Rightarrow> pstate option" where
  "step (Expect_value st) t = begin_value st t"
| "step (Expect_value_or_close st) t =
     (if t = TRBracket then close_array st else begin_value st t)"
| "step (Expect_key_or_close st) t =
     (if t = TRBrace then close_object st else read_key st t)"
| "step (Expect_key st) t = read_key st t"
| "step (Expect_colon st) t = (if t = TColon then Some (Expect_value st) else None)"
| "step (After_value st) t = after_value st t"
| "step (Complete v) t = None"

fun run :: "pstate \<Rightarrow> token list \<Rightarrow> pstate option" where
  "run s [] = Some s"
| "run s (t # ts) = (case step s t of None \<Rightarrow> None | Some s' \<Rightarrow> run s' ts)"

definition json_loads :: "str \<Rightarrow> json option" where
  "json_loads s =
     (case tokenize s of
        None \<Rightarrow> None
      | Some ts \<Rightarrow>
          (case run (Expect_value []) ts of
             Some (Complete v) \<Rightarrow> Some v
           | _ \<Rightarrow> None))"

section \<open>json.dumps\<close>

text \<open>
  \<open>json.dumps\<close> with its default arguments: \<open>ensure_ascii=True\<close>, the separators
  \<^verbatim>\<open>", "\<close> and \<^verbatim>\<open>": "\<close>. In a string, the quote, the backslash and five control
  characters have two-character escapes, the other code points outside blank to tilde
  are written \<^verbatim>\<open>\uXXXX\<close>, and a code point from 0x10000 on as a surrogate pair.
\<close>

definition hex_digit :: "nat \<Rightarrow> nat" where
  "hex_digit d = (if d < 10 then 48 + d else 87 + d)"

definition hex4 :: "nat \<Rightarrow> str" where
  "hex4 n =
     [hex_digit (n div 4096 mod 16), hex_digit (n div 256 mod 16),
      hex_digit (n div 16 mod 16), hex_digit (n mod 16)]"

definition escape_char :: "nat \<Rightarrow> str" where
  "escape_char c =
     (if c = ord CHR 0x22 then [ord CHR 0x5C, ord CHR 0x22]
      else if c = ord CHR 0x5C then [ord CHR 0x5C, ord CHR 0x5C]
      else if c = 10 then [ord CHR 0x5C, ord CHR ''n'']
      else if c = 13 then [ord CHR 0x5C, ord CHR ''r'']
      else if c = 9 then [ord CHR 0x5C, ord CHR ''t'']
      else if c = 12 then [ord CHR 0x5C, ord CHR ''f'']
      else if c = 8 then [ord CHR 0x5C, ord CHR ''b'']
      else if 32 \<le> c \<and> c \<le> 126 then [c]
      else if c < 65536 then [ord CHR 0x5C, ord CHR ''u''] @ hex4 c
      else [ord CHR 0x5C, ord CHR ''u''] @ hex4 (55296 + (c - 65536) div 1024 mod 1024) @
           [ord CHR 0x5C, ord CHR ''u''] @ hex4 (56320 + (c - 65536) mod 1024))"

definition encode_str :: "str \<Rightarrow> str" where
  "encode_str s = [ord CHR 0x22] @ concat (map escape_char s) @ [ord CHR 0x22]"

fun join :: "str \<Rightarrow> str list \<Rightarrow> str" where
  "join sep [] = []"
| "join sep [x] = x"
| "join sep (x # y # ys) = x @ sep @ join sep (y # ys)"

fun json_dumps :: "json \<Rightarrow> str" where
  "json_dumps JNull = lit ''null''"
| "json_dumps (JBool b) = (if b then lit ''true'' else lit ''false'')"
| "json_dumps (JNum l) = l"
| "json_dumps (JStr s) = encode_str s"
| "json_dumps (JArr xs) = lit ''['' @ join (lit '', '') (map json_dumps xs) @ lit '']''"
| "json_dumps (JObj ms) =
     lit ''{'' @
     join (lit '', '') (map (\<lambda>(k, v). encode_str k @ lit '': '' @ json_dumps v) ms) @
     lit ''}''"

section \<open>The client's sanitizer (gemini_client.py)\<close>

text \<open>
  \<^verbatim>\<open>
  def _clean_to_json_str(text: str) -> Optional[str]:
      if not text:
          return None
      cleaned = text.strip()
      cleaned = re.sub(r"^```[a-zA-Z]*\n?", "", cleaned)
      cleaned = re.sub(r"```$", "", cleaned)
      start = cleaned.find("{")
      end = cleaned.rfind("}")
      if start != -1 and end != -1 and end > start:
          candidate = cleaned[start:end + 1]
          try:
              json.loads(candidate)  # validate
              return candidate
          except Exception:
              return None
      return None
  \<close>
\<close>

definition clean_to_json_str :: "str \<Rightarrow> str option" where
  "clean_to_json_str text =
     (if text = [] then None
      else
        (let cleaned = strip text;
             cleaned = sub_leading_fence cleaned;
             cleaned = sub_trailing_fence cleaned;
             start = str_find cleaned (ord CHR ''{'');
             end = str_rfind cleaned (ord CHR ''}'')
         in if start \<noteq> - 1 \<and> end \<noteq> - 1 \<and> end > start
            then (let candidate = slice cleaned start (end + 1)
                  in case json_loads candidate of
                       Some v \<Rightarrow> Some candidate
                     | None \<Rightarrow> None)
            else None))"

section \<open>Exceptions and the provider's response\<close>

text \<open>
  An exception is its class name and its \<open>str(e)\<close>. Every exception of the model is an
  instance of \<open>Exception\<close>, which is what \<^verbatim>\<open>except Exception\<close> catches;
  \<open>KeyboardInterrupt\<close> and \<open>SystemExit\<close> are not modelled.
\<close>

datatype exn = Exn (exn_class: str) (exn_str: str)

text \<open>
  What the provider call may return: \<open>None\<close>, a string, an integer, a list, or an object
  of some class with attributes; reading an attribute gives a value (\<open>Inr\<close>) or raises
  (\<open>Inl\<close>), as a property can.
\<close>

datatype pyval =
    PNone
  | PStr str
  | PInt int
  | PList "pyval list"
  | PObj str "(str \<times> (exn + pyval)) list"

fun type_name :: "pyval \<Rightarrow> str" where
  "type_name PNone = lit ''NoneType''"
| "type_name (PStr s) = lit ''str''"
| "type_name (PInt i) = lit ''int''"
| "type_name (PList xs) = lit ''list''"
| "type_name (PObj c as) = c"

fun py_truthy :: "pyval \<Rightarrow> bool" where
  "py_truthy PNone = False"
| "py_truthy (PStr s) = (s \<noteq> [])"
| "py_truthy (PInt i) = (i \<noteq> 0)"
| "py_truthy (PList xs) = (xs \<noteq> [])"
| "py_truthy (PObj c as) = True"

text \<open>The message of an \<open>AttributeError\<close>; 39 is the apostrophe.\<close>

definition no_attribute :: "str \<Rightarrow> str \<Rightarrow> exn" where
  "no_attribute ty name =
     Exn (lit ''AttributeError'')
       ([39] @ ty @ [39] @ lit '' object has no attribute '' @ [39] @ name @ [39])"

definition bind :: "exn + 'a \<Rightarrow> ('a \<Rightarrow> exn + 'b) \<Rightarrow> exn + 'b" where
  "bind x f = (case x of Inl e \<Rightarrow> Inl e | Inr v \<Rightarrow> f v)"

text \<open>
  \<open>getattr(o, name, default)\<close>, \<open>hasattr(o, name)\<close> and \<open>o.name\<close>, for the attribute
  names the client reads (\<open>text\<close>, \<open>candidates\<close>, \<open>content\<close>, \<open>parts\<close>), which no
  built-in value has. An \<open>AttributeError\<close> raised by the attribute counts as absence for
  the first two; any other exception goes on.
\<close>

fun getattr_default :: "pyval \<Rightarrow> str \<Rightarrow> pyval \<Rightarrow> exn + pyval" where
  "getattr_default (PObj c as) name d =
     (case map_of as name of
        None \<Rightarrow> Inr d
      | Some (Inr v) \<Rightarrow> Inr v
      | Some (Inl e) \<Rightarrow> if exn_class e = lit ''AttributeError'' then Inr d else Inl e)"
| "getattr_default v name d = Inr d"

fun hasattr :: "pyval \<Rightarrow> str \<Rightarrow> exn + bool" where
  "hasattr (PObj c as) name =
     (case map_of as name of
        None \<Rightarrow> Inr False
      | Some (Inr v) \<Rightarrow> Inr True
      | Some (Inl e) \<Rightarrow> if exn_class e = lit ''AttributeError'' then Inr False else Inl e)"
| "hasattr v name = Inr False"

fun getattr :: "pyval \<Rightarrow> str \<Rightarrow> exn + pyval" where
  "getattr (PObj c as) name =
     (case map_of as name of
        None \<Rightarrow> Inl (no_attribute c name)
      | Some r \<Rightarrow> r)"
| "getattr v name = Inl (no_attribute (type_name v) name)"

text \<open>\<open>x[0]\<close>: the first element of a list, the first character of a string.\<close>

fun index0 :: "pyval \<Rightarrow> exn + pyval" where
  "index0 (PList []) = Inl (Exn (lit ''IndexError'') (lit ''list index out of range''))"
| "index0 (PList (x # xs)) = Inr x"
| "index0 (PStr []) = Inl (Exn (lit ''IndexError'') (lit ''string index out of range''))"
| "index0 (PStr (c # cs)) = Inr (PStr [c])"
| "index0 v =
     Inl (Exn (lit ''TypeError'')
            ([39] @ type_name v @ [39] @ lit '' object is not subscriptable''))"

text \<open>
  The text of a response (lines 147 to 157 of gemini_client.py): the attribute \<open>text\<close>,
  and when that is false the \<open>text\<close> of the first part of the content of the first
  candidate.
\<close>

definition extract_text :: "pyval \<Rightarrow> exn + pyval" where
  "extract_text response =
     bind (getattr_default response (lit ''text'') PNone) (\<lambda>text.
       if py_truthy text then Inr text
       else
         bind (getattr_default response (lit ''candidates'') (PList [])) (\<lambda>candidates.
           if py_truthy candidates then
             bind (index0 candidates) (\<lambda>candidate.
               bind (getattr_default candidate (lit ''content'') PNone) (\<lambda>content.
                 if py_truthy content then
                   bind (getattr_default content (lit ''parts'') (PList [])) (\<lambda>parts.
                     if py_truthy parts then
                       bind (index0 parts) (\<lambda>part.
                         bind (hasattr part (lit ''text'')) (\<lambda>h.
                           if h then getattr part (lit ''text'') else Inr text))
                     else Inr text)
                 else Inr text))
           else Inr text))"

text \<open>
  \<open>_clean_to_json_str(v)\<close> on a value that is true: a string is sanitized; any other
  value gets as far as \<open>text.strip()\<close>, which raises.
\<close>

definition strip_error :: "pyval \<Rightarrow> exn" where
  "strip_error v =
     (case v of
        PObj c as \<Rightarrow>
          (case map_of as (lit ''strip'') of
             None \<Rightarrow> no_attribute c (lit ''strip'')
           | Some (Inl e) \<Rightarrow> e
           | Some (Inr w) \<Rightarrow>
               Exn (lit ''TypeError'')
                 ([39] @ type_name w @ [39] @ lit '' object is not callable''))
      | _ \<Rightarrow> no_attribute (type_name v) (lit ''strip''))"

definition call_clean_to_json_str :: "pyval \<Rightarrow> exn + str option" where
  "call_clean_to_json_str v =
     (case v of PStr s \<Rightarrow> Inr (clean_to_json_str s) | _ \<Rightarrow> Inl (strip_error v))"

section \<open>The model client (gemini_client.py)\<close>

text \<open>
  The environment of a request: the value of \<open>GEMINI_API_KEY\<close> and the behaviour of
  \<open>client.models.generate_content\<close>, which returns a response or raises. The prompt is
  built from the code and the language hint and reaches nothing but the provider, so
  the provider's behaviour is taken as a function of these two; the text of the prompt
  (\<open>SYSTEM_INSTRUCTIONS\<close>, \<open>build_prompt\<close>) is not modelled. The language hint is the
  JSON value of the request's field, \<open>JNull\<close> for \<open>None\<close>.
\<close>

record env =
  gemini_api_key :: "str option"
  generate_content :: "str \<Rightarrow> json \<Rightarrow> exn + pyval"

text \<open>10060 is the cross mark that opens the message.\<close>

definition get_client :: "env \<Rightarrow> exn + unit" where
  "get_client e =
     (case gemini_api_key e of
        None \<Rightarrow>
          Inl (Exn (lit ''RuntimeError'')
                 (10060 # lit '' GEMINI_API_KEY environment variable is not set.''))
      | Some k \<Rightarrow>
          if k = []
          then Inl (Exn (lit ''RuntimeError'')
                      (10060 # lit '' GEMINI_API_KEY environment variable is not set.''))
          else Inr ())"

definition fallback :: json where
  "fallback =
     JObj [(lit ''code_status'', JStr (lit ''Incorrect'')),
           (lit ''issues_found'', JArr [JStr (lit ''Model did not return valid JSON output.'')]),
           (lit ''suggestions'',
            JArr [JStr (lit ''Re-run the review.''),
                  JStr (lit ''Ensure the snippet is complete and includes required imports.'')])]"

definition error_json :: "exn \<Rightarrow> json" where
  "error_json e =
     JObj [(lit ''code_status'', JStr (lit ''Incorrect'')),
           (lit ''issues_found'', JArr [JStr (lit ''Model call failed: '' @ exn_str e)]),
           (lit ''suggestions'',
            JArr [JStr (lit ''Check your GEMINI_API_KEY and internet connectivity.''),
                  JStr (lit ''Ensure google-genai is installed (version 0.3.0).'')])]"

text \<open>The body of the \<open>try\<close> block of \<open>review_code\<close> (lines 133 to 177).\<close>

definition review_attempt :: "env \<Rightarrow> str \<Rightarrow> json \<Rightarrow> exn + str" where
  "review_attempt e user_code language_hint =
     bind (generate_content e user_code language_hint) (\<lambda>response.
       bind (extract_text response) (\<lambda>text.
         bind (call_clean_to_json_str (if py_truthy text then text else PStr [])) (\<lambda>json_str.
           case json_str of
             None \<Rightarrow> Inr (json_dumps fallback)
           | Some c \<Rightarrow> if c \<noteq> [] then Inr c else Inr (json_dumps fallback))))"

text \<open>
  \<open>review_code\<close>: \<open>get_client\<close> is called before the \<open>try\<close>, so its error leaves the
  function; every exception of the block is caught and answered by \<open>error_json\<close>.
\<close>

definition review_code :: "env \<Rightarrow> str \<Rightarrow> json \<Rightarrow> exn + str" where
  "review_code e user_code language_hint =
     (case get_client e of
        Inl err \<Rightarrow> Inl err
      | Inr client \<Rightarrow>
          (case review_attempt e user_code language_hint of
             Inl err \<Rightarrow> Inr (json_dumps (error_json err))
           | Inr s \<Rightarrow> Inr s))"

section \<open>The HTTP front (app.py)\<close>

text \<open>
  A response is its status and the value given to \<open>jsonify\<close>. The request is the result
  of \<open>request.get_json(silent=True)\<close>: \<open>None\<close> when the body is not JSON, the parsed
  value otherwise. The model client is the imported \<open>review_code\<close>, a parameter of the
  handler. \<open>Inl\<close> is an exception that leaves the handler.
  \<^verbatim>\<open>
  def api_review():
      data = request.get_json(silent=True) or {}
      code = data.get("code", "").strip()
      language = data.get("language")
      if not code:
          return jsonify({"error": "No code provided."}), 400
      try:
          raw = review_code(code, language)
          cleaned = clean_json_output(raw)
          parsed = json.loads(cleaned)
          return jsonify(parsed)
      except json.JSONDecodeError:
          return jsonify({"summary": "Gemini returned non-JSON. Showing raw.", "raw": raw})
      except Exception as e:
          return jsonify({"error": str(e)}), 500
  \<close>
\<close>

record response =
  status :: nat
  body :: json

fun json_type_name :: "json \<Rightarrow> str" where
  "json_type_name JNull = lit ''NoneType''"
| "json_type_name (JBool b) = lit ''bool''"
| "json_type_name (JNum l) =
     (if filter (\<lambda>c. \<not> isdigit c \<and> c \<noteq> ord CHR ''-'') l = [] then lit ''int''
      else lit ''float'')"
| "json_type_name (JStr s) = lit ''str''"
| "json_type_name (JArr xs) = lit ''list''"
| "json_type_name (JObj d) = lit ''dict''"

definition api_review ::
  "(str \<Rightarrow> json \<Rightarrow> exn + str) \<Rightarrow> json option \<Rightarrow> exn + response" where
  "api_review review request_json =
     (let data = (case request_json of
                    None \<Rightarrow> JObj []
                  | Some v \<Rightarrow> if truthy v then v else JObj [])
      in case data of
           JObj d \<Rightarrow>
             (case (case dict_get d (lit ''code'') of None \<Rightarrow> JStr [] | Some v \<Rightarrow> v) of
                JStr s \<Rightarrow>
                  (let code = strip s;
                       language = (case dict_get d (lit ''language'') of
                                     None \<Rightarrow> JNull
                                   | Some v \<Rightarrow> v)
                   in if code = []
                      then Inr \<lparr>status = 400,
                                body = JObj [(lit ''error'', JStr (lit ''No code provided.''))]\<rparr>
                      else
                        (case review code language of
                           Inl e \<Rightarrow>
                             Inr \<lparr>status = 500,
                                  body = JObj [(lit ''error'', JStr (exn_str e))]\<rparr>
                         | Inr raw \<Rightarrow>
                             (case json_loads (clean_json_output raw) of
                                Some parsed \<Rightarrow> Inr \<lparr>status = 200, body = parsed\<rparr>
                              | None \<Rightarrow>
                                  Inr \<lparr>status = 200,
                                       body =
                                         JObj [(lit ''summary'',
                                                JStr (lit ''Gemini returned non-JSON. Showing raw.'')),
                                               (lit ''raw'', JStr raw)]\<rparr>)))
              | v \<Rightarrow> Inl (no_attribute (json_type_name v) (lit ''strip'')))
         | v \<Rightarrow> Inl (no_attribute (json_type_name v) (lit ''get'')))"

section \<open>Evaluation\<close>

lemmas sanitize_defs = clean_json_output_def clean_to_json_str_def strip_def isspace_def
  sub_leading_fence_def sub_trailing_fence_def startswith_def endswith_def lit_def
  str_rfind_def slice_def slice_bound_def ascii_letter_def Let_def

lemmas loads_defs = json_loads_def next_token_def json_ws_def scan_number_def scan_int_def
  scan_frac_def scan_exp_def isdigit_def is_hex_def prepend_def startswith_def lit_def Let_def

section \<open>The sanitizers\<close>

lemma strip_blank: "list_all isspace s \<Longrightarrow> strip s = []"
proof -
  assume "list_all isspace s"
  then have h: "dropWhile isspace s = []"
    by (simp add: list_all_iff)
  show ?thesis unfolding strip_def h by simp
qed

text \<open>
  C3 (what the code does at the input \<open>}{\<close>). The claim asks both sanitizers to slice
  only when the last closing brace lies after the first opening brace. In \<open>}{\<close> the first
  \<open>{\<close> is at index 1 and the last \<open>}\<close> at index 0. The client's sanitizer takes no slice
  and returns \<open>None\<close>; the front end's sanitizer, whose test lacks \<open>end > start\<close>, takes
  the slice \<open>cleaned[1:1]\<close> and returns the empty string instead of the text \<open>}{\<close>.
\<close>

theorem clean_json_output_slices_reversed_braces:
  \<open>str_find (lit ''}{'') (ord CHR ''{'') = 1 \<and>
   str_rfind (lit ''}{'') (ord CHR ''}'') = 0 \<and>
   clean_json_output (lit ''}{'') = [] \<and>
   clean_to_json_str (lit ''}{'') = None\<close>
  by (simp add: sanitize_defs)

text \<open>
  C4, as stated, fails: on the input of one blank, which is white space only, the front
  end's sanitizer returns the empty string and not \<open>{}\<close>, because it tests the input for
  emptiness before it trims it.
\<close>

theorem clean_json_output_blank_counterexample:
  \<open>list_all isspace (lit '' '') \<and>
   clean_json_output (lit '' '') = [] \<and>
   clean_json_output (lit '' '') \<noteq> lit ''{}''\<close>
  by (simp add: sanitize_defs)

text \<open>
  C4, amended. Both sanitizers test the input for emptiness first and trim afterwards.
  On an input that is empty or white space only, the client's sanitizer returns \<open>None\<close>;
  the front end's sanitizer returns \<open>{}\<close> on the empty input and the empty string on an
  input of white space that is not empty.
\<close>

theorem sanitizers_on_blank_input:
  "list_all isspace s \<Longrightarrow>
   clean_json_output s = (if s = [] then lit ''{}'' else []) \<and> clean_to_json_str s = None"
  by (simp add: clean_json_output_def clean_to_json_str_def strip_blank
      sub_leading_fence_def sub_trailing_fence_def startswith_def endswith_def lit_def
      str_rfind_def)

theorem sanitizers_on_blank_input_witness:
  \<open>list_all isspace (lit ''  '') \<and>
   clean_json_output (lit ''  '') = [] \<and>
   clean_to_json_str (lit ''  '') = None\<close>
proof -
  have h: "list_all isspace (lit ''  '')"
    by (simp add: lit_def isspace_def)
  from sanitizers_on_blank_input [OF h] h show ?thesis
    by (simp add: lit_def)
qed

text \<open>
  C7. On the fenced input (three backticks, \<open>json\<close>, a line feed, the object, a line feed,
  three backticks) both sanitizers produce the seven characters of the object: the
  fences are stripped and the braces kept.
\<close>

theorem sanitizers_strip_fences:
  \<open>clean_json_output (lit ''```json\<newline>{"a":1}\<newline>```'') = lit ''{"a":1}'' \<and>
   clean_to_json_str (lit ''```json\<newline>{"a":1}\<newline>```'') = Some (lit ''{"a":1}'') \<and>
   length (lit ''{"a":1}'') = 7\<close>
  by (simp add: sanitize_defs loads_defs)

text \<open>
  C8. On the clean input \<open>{"a":1}\<close> both sanitizers return the input unchanged, so
  sanitizing the output again gives the same string.
\<close>

theorem sanitizers_keep_clean_input:
  \<open>clean_json_output (lit ''{"a":1}'') = lit ''{"a":1}'' \<and>
   clean_to_json_str (lit ''{"a":1}'') = Some (lit ''{"a":1}'') \<and>
   clean_json_output (clean_json_output (lit ''{"a":1}'')) =
     clean_json_output (lit ''{"a":1}'')\<close>
  by (simp add: sanitize_defs loads_defs)

text \<open>
  C9. Whenever the client's sanitizer returns a candidate, the front end's sanitizer
  returns the same string on the same input.
\<close>

theorem sanitizers_agree:
  "clean_to_json_str s = Some c \<Longrightarrow> clean_json_output s = c"
  by (auto simp: clean_to_json_str_def clean_json_output_def Let_def
      split: if_splits option.splits)

theorem sanitizers_agree_witness:
  \<open>clean_to_json_str (lit ''  x {"a":1} y'') = Some (lit ''{"a":1}'') \<and>
   clean_json_output (lit ''  x {"a":1} y'') = lit ''{"a":1}''\<close>
proof -
  have h: \<open>clean_to_json_str (lit ''  x {"a":1} y'') = Some (lit ''{"a":1}'')\<close>
    by (simp add: sanitize_defs loads_defs)
  from sanitizers_agree [OF h] h show ?thesis
    by simp
qed

section \<open>What json.dumps writes is read back by json.loads\<close>

lemma is_hex_hex_digit: "d < 16 \<Longrightarrow> is_hex (hex_digit d)"
  by (auto simp: is_hex_def hex_digit_def isdigit_def)

lemma prepend_prepend: "prepend a (prepend b x) = prepend (a @ b) x"
  by (simp add: prepend_def split: option.splits)

lemma scan_u:
  "scan_string (92 # 117 # hex4 n @ xs) = prepend (92 # 117 # hex4 n) (scan_string xs)"
  by (simp add: hex4_def is_hex_hex_digit lit_def)

lemma scan_plain:
  "32 \<le> c \<Longrightarrow> c \<noteq> 34 \<Longrightarrow> c \<noteq> 92 \<Longrightarrow>
   scan_string (c # xs) = prepend [c] (scan_string xs)"
  by simp

lemma scan_short_escape:
  "e = 34 \<or> e = 92 \<or> e = 110 \<or> e = 114 \<or> e = 116 \<or> e = 102 \<or> e = 98 \<Longrightarrow>
   scan_string (92 # e # xs) = prepend [92, e] (scan_string xs)"
  by (auto simp: lit_def)

lemma scan_escape_char:
  "scan_string (escape_char c @ xs) = prepend (escape_char c) (scan_string xs)"
  by (simp add: escape_char_def scan_u scan_plain scan_short_escape prepend_prepend
      del: scan_string.simps)

lemma scan_escaped:
  "scan_string (concat (map escape_char s) @ 34 # rest) =
     Some (concat (map escape_char s), rest)"
  by (induction s) (simp_all add: scan_escape_char prepend_def)

text \<open>An encoded string is one string token, whatever the string.\<close>

lemma tokenize_encoded:
  "tokenize (encode_str s @ rest) =
     (case tokenize rest of
        None \<Rightarrow> None
      | Some ts \<Rightarrow> Some (TString (concat (map escape_char s)) # ts))"
  by (simp add: encode_str_def next_token_def json_ws_def scan_escaped)

lemma loads_dumps_error_json: "\<exists>v. json_loads (json_dumps (error_json err)) = Some v"
  by (simp add: error_json_def json_loads_def tokenize_encoded next_token_def json_ws_def
      lit_def)

lemma loads_dumps_fallback: "\<exists>v. json_loads (json_dumps fallback) = Some v"
  by (simp add: fallback_def json_loads_def tokenize_encoded next_token_def json_ws_def
      lit_def)

lemma clean_to_json_str_valid:
  "clean_to_json_str t = Some c \<Longrightarrow> \<exists>v. json_loads c = Some v"
  by (auto simp: clean_to_json_str_def Let_def split: if_splits option.splits)

lemma review_attempt_valid:
  "review_attempt e c h = Inr s \<Longrightarrow> \<exists>v. json_loads s = Some v"
  by (auto simp: review_attempt_def bind_def call_clean_to_json_str_def
      loads_dumps_fallback
      split: sum.splits option.splits if_splits pyval.splits
      dest: clean_to_json_str_valid)

section \<open>The model client\<close>

text \<open>
  C1. When the API key is set, so that the client is constructed, \<open>review_code\<close>
  returns a string, and \<open>json.loads\<close> accepts that string: for every code and language
  hint, and whatever the provider call does, be it any exception or any response
  object, including one whose attributes raise or hold values of the wrong type.
\<close>

theorem review_code_returns_json:
  assumes "gemini_api_key e = Some k" and "k \<noteq> []"
  shows "\<exists>s. review_code e user_code language_hint = Inr s \<and> json_loads s \<noteq> None"
  using assms
  by (auto simp: review_code_def get_client_def loads_dumps_error_json
      split: sum.splits dest: review_attempt_valid)

theorem review_code_returns_json_witness:
  \<open>gemini_api_key
     \<lparr>gemini_api_key = Some (lit ''key''),
      generate_content = (\<lambda>c h. Inr (PObj (lit ''Response'') [(lit ''text'', Inr (PInt 7))]))\<rparr>
     = Some (lit ''key'') \<and>
   lit ''key'' \<noteq> [] \<and>
   (\<exists>s. review_code
          \<lparr>gemini_api_key = Some (lit ''key''),
           generate_content = (\<lambda>c h. Inr (PObj (lit ''Response'') [(lit ''text'', Inr (PInt 7))]))\<rparr>
          (lit ''x = 1'') JNull = Inr s \<and>
        json_loads s \<noteq> None)\<close>
proof -
  have k: "lit ''key'' \<noteq> []"
    by (simp add: lit_def)
  have h: "gemini_api_key
     \<lparr>gemini_api_key = Some (lit ''key''),
      generate_content = (\<lambda>c h. Inr (PObj (lit ''Response'') [(lit ''text'', Inr (PInt 7))]))\<rparr>
     = Some (lit ''key'')"
    by simp
  from review_code_returns_json [OF h k, of "lit ''x = 1''" JNull] h k show ?thesis
    by blast
qed

text \<open>
  The response of the provider's SDK with an empty \<open>text\<close> and one candidate: the text of
  the first part is sanitized and returned.
\<close>

lemma review_code_reads_first_part:
  \<open>review_code
     \<lparr>gemini_api_key = Some (lit ''key''),
      generate_content = (\<lambda>c h. Inr (PObj (lit ''Response'')
        [(lit ''text'', Inr PNone),
         (lit ''candidates'', Inr (PList [PObj (lit ''Candidate'')
            [(lit ''content'', Inr (PObj (lit ''Content'')
               [(lit ''parts'', Inr (PList [PObj (lit ''Part'')
                  [(lit ''text'',
                    Inr (PStr (lit ''```json\<newline>{"a":1}\<newline>```'')))]]))]))]]))]))\<rparr>
     (lit ''x = 1'') JNull = Inr (lit ''{"a":1}'')\<close>
  by (simp add: review_code_def get_client_def review_attempt_def bind_def extract_text_def
      call_clean_to_json_str_def sanitize_defs loads_defs)

text \<open>
  C5. When the API key is set and the provider call raises, \<open>review_code\<close> returns the
  serialization of the fallback object: \<open>code_status\<close> is \<open>Incorrect\<close>, \<open>issues_found\<close>
  is the one-element list that names the failure by the exception's message, and
  \<open>suggestions\<close> is a list of two strings.
\<close>

theorem review_code_provider_failure:
  assumes "gemini_api_key e = Some k" and "k \<noteq> []"
    and "generate_content e user_code language_hint = Inl err"
  shows "review_code e user_code language_hint =
           Inr (json_dumps
             (JObj [(lit ''code_status'', JStr (lit ''Incorrect'')),
                    (lit ''issues_found'',
                     JArr [JStr (lit ''Model call failed: '' @ exn_str err)]),
                    (lit ''suggestions'',
                     JArr [JStr (lit ''Check your GEMINI_API_KEY and internet connectivity.''),
                           JStr (lit ''Ensure google-genai is installed (version 0.3.0).'')])]))"
  using assms
  by (simp add: review_code_def get_client_def review_attempt_def bind_def error_json_def)

theorem review_code_provider_failure_witness:
  \<open>review_code
     \<lparr>gemini_api_key = Some (lit ''key''),
      generate_content = (\<lambda>c h. Inl (Exn (lit ''ConnectionError'') (lit ''no "route"'')))\<rparr>
     (lit ''x = 1'') JNull =
   Inr (lit ''{"code_status": "Incorrect", "issues_found": ["Model call failed: no '' @
        [92] @ lit ''"route'' @ [92] @ lit ''""], "suggestions": ['' @
        lit ''"Check your GEMINI_API_KEY and internet connectivity.", '' @
        lit ''"Ensure google-genai is installed (version 0.3.0)."]}'')\<close>
proof -
  have k: "lit ''key'' \<noteq> []"
    by (simp add: lit_def)
  have h: "gemini_api_key
     \<lparr>gemini_api_key = Some (lit ''key''),
      generate_content = (\<lambda>c h. Inl (Exn (lit ''ConnectionError'') (lit ''no \"route\"'')))\<rparr>
     = Some (lit ''key'')"
    by simp
  have g: "generate_content
     \<lparr>gemini_api_key = Some (lit ''key''),
      generate_content = (\<lambda>c h. Inl (Exn (lit ''ConnectionError'') (lit ''no \"route\"'')))\<rparr>
     (lit ''x = 1'') JNull = Inl (Exn (lit ''ConnectionError'') (lit ''no \"route\"''))"
    by simp
  show ?thesis
    unfolding review_code_provider_failure [OF h k g]
    by (simp add: encode_str_def escape_char_def lit_def)
qed

section \<open>The HTTP front\<close>

text \<open>
  The truth value of numbers: zero as \<open>int\<close> and as \<open>float\<close>, and a float literal that
  rounds to zero, are false.
\<close>

lemma truthy_numbers:
  "\<not> truthy (JNum (lit ''0''))" "\<not> truthy (JNum (lit ''-0.0''))"
  "truthy (JNum (lit ''5''))" "truthy (JNum (lit ''0.5''))"
  "\<not> truthy (JNum (lit ''1e-999''))"
  by (simp_all add: nonzero_literal_def literal_exponent_def digits_value_def isdigit_def
      lit_def Let_def)

text \<open>
  A body that is true and is not an object has no \<open>get\<close>: the handler raises before
  it looks at \<open>code\<close>.
\<close>

lemma api_review_body_not_an_object:
  assumes "truthy v" and "(case v of JObj d \<Rightarrow> False | _ \<Rightarrow> True)"
  shows "api_review review (Some v) = Inl (no_attribute (json_type_name v) (lit ''get''))"
  using assms by (cases v) (simp_all add: api_review_def)

text \<open>
  C2, as stated, fails: the body \<open>[1]\<close> is a request body in which the field \<open>code\<close>
  is absent. It is true, so \<open>{}\<close> does not take its place, and a list has no \<open>get\<close>:
  \<open>data.get("code", "")\<close> raises \<open>AttributeError\<close> before the test for empty code and
  outside the \<open>try\<close> block, and the answer is not the 400 response.
\<close>

theorem api_review_list_body_counterexample:
  \<open>api_review (\<lambda>c h. Inr (lit ''{}'')) (Some (JArr [JNum (lit ''1'')])) =
     Inl (Exn (lit ''AttributeError'')
            ([39] @ lit ''list'' @ [39] @ lit '' object has no attribute '' @
             [39] @ lit ''get'' @ [39])) \<and>
   api_review (\<lambda>c h. Inr (lit ''{}'')) (Some (JArr [JNum (lit ''1'')])) \<noteq>
     Inr \<lparr>status = 400, body = JObj [(lit ''error'', JStr (lit ''No code provided.''))]\<rparr>\<close>
  by (simp add: api_review_def no_attribute_def)

text \<open>
  C2, amended. When the request has no JSON body, or a body that is false (so that
  \<open>{}\<close> takes its place), or its body is an object in which \<open>code\<close> is absent or is a
  string that is empty after trimming, the answer is status 400 with the body
  \<open>{"error": "No code provided."}\<close>. This holds for every model client, also one that
  would raise: the client is not called.
\<close>

theorem api_review_no_code:
  assumes "request_json = None \<or>
           (\<exists>v. request_json = Some v \<and> truthy v = False) \<or>
           (\<exists>d. request_json = Some (JObj d) \<and>
                (dict_get d (lit ''code'') = None \<or>
                 (\<exists>s. dict_get d (lit ''code'') = Some (JStr s) \<and> strip s = [])))"
  shows "api_review review request_json =
           Inr \<lparr>status = 400,
                body = JObj [(lit ''error'', JStr (lit ''No code provided.''))]\<rparr>"
  using assms
  by (auto simp: api_review_def Let_def strip_def dict_get_def)

theorem api_review_no_code_witness:
  \<open>dict_get [(lit ''code'', JStr (lit ''   ''))] (lit ''code'') = Some (JStr (lit ''   '')) \<and>
   strip (lit ''   '') = [] \<and>
   api_review (\<lambda>c h. Inl (Exn (lit ''RuntimeError'') (lit ''called'')))
     (Some (JObj [(lit ''code'', JStr (lit ''   ''))])) =
   Inr \<lparr>status = 400, body = JObj [(lit ''error'', JStr (lit ''No code provided.''))]\<rparr>\<close>
proof -
  have g: "dict_get [(lit ''code'', JStr (lit ''   ''))] (lit ''code'') = Some (JStr (lit ''   ''))"
    by (simp add: dict_get_def)
  have s: "strip (lit ''   '') = []"
    by (simp add: strip_def lit_def isspace_def)
  from g s have h: "Some (JObj [(lit ''code'', JStr (lit ''   ''))]) = None \<or>
           (\<exists>v. Some (JObj [(lit ''code'', JStr (lit ''   ''))]) = Some v \<and> truthy v = False) \<or>
           (\<exists>d. Some (JObj [(lit ''code'', JStr (lit ''   ''))]) = Some (JObj d) \<and>
                (dict_get d (lit ''code'') = None \<or>
                 (\<exists>s. dict_get d (lit ''code'') = Some (JStr s) \<and> strip s = [])))"
    by blast
  from api_review_no_code [OF h] g s show ?thesis
    by blast
qed

text \<open>
  C6. When the request carries code, the model client returns a text \<open>raw\<close>, and
  \<open>json.loads\<close> rejects the sanitized text, the answer is status 200 with the body
  \<open>{"summary": "Gemini returned non-JSON. Showing raw.", "raw": raw}\<close>, \<open>raw\<close> being the
  client's text as it was returned.
\<close>

theorem api_review_soft_fail:
  assumes "dict_get d (lit ''code'') = Some (JStr s)" and "strip s \<noteq> []"
    and "review (strip s)
           (case dict_get d (lit ''language'') of None \<Rightarrow> JNull | Some v \<Rightarrow> v) = Inr raw"
    and "json_loads (clean_json_output raw) = None"
  shows "api_review review (Some (JObj d)) =
           Inr \<lparr>status = 200,
                body = JObj [(lit ''summary'',
                              JStr (lit ''Gemini returned non-JSON. Showing raw.'')),
                             (lit ''raw'', JStr raw)]\<rparr>"
proof -
  from assms(1) have "d \<noteq> []"
    by (auto simp: dict_get_def)
  with assms show ?thesis
    by (simp add: api_review_def Let_def)
qed

theorem api_review_soft_fail_witness:
  \<open>api_review (\<lambda>c h. Inr (lit ''Sorry, {no json'')) (Some (JObj [(lit ''code'', JStr (lit '' x ''))])) =
   Inr \<lparr>status = 200,
        body = JObj [(lit ''summary'', JStr (lit ''Gemini returned non-JSON. Showing raw.'')),
                     (lit ''raw'', JStr (lit ''Sorry, {no json''))]\<rparr>\<close>
proof -
  have g: "dict_get [(lit ''code'', JStr (lit '' x ''))] (lit ''code'') = Some (JStr (lit '' x ''))"
    by (simp add: dict_get_def)
  have s: "strip (lit '' x '') \<noteq> []"
    by (simp add: strip_def lit_def isspace_def)
  have r: "(\<lambda>c h. Inr (lit ''Sorry, {no json'')) (strip (lit '' x ''))
             (case dict_get [(lit ''code'', JStr (lit '' x ''))] (lit ''language'') of
                None \<Rightarrow> JNull | Some v \<Rightarrow> v) = (Inr (lit ''Sorry, {no json'') :: exn + str)"
    by simp
  have l: "json_loads (clean_json_output (lit ''Sorry, {no json'')) = None"
    by (simp add: sanitize_defs loads_defs)
  from api_review_soft_fail [OF g s r l] show ?thesis .
qed

text \<open>
  C10. When the body is an object whose field \<open>code\<close> is present and is not a string,
  \<open>.strip()\<close> raises \<open>AttributeError\<close> before the test for empty code and before the
  \<open>try\<close> block: the exception leaves the handler, and the request gets neither the 400
  body nor the 500 body of the handler.
\<close>

theorem api_review_code_not_a_string:
  assumes "dict_get d (lit ''code'') = Some v"
    and "(case v of JStr s \<Rightarrow> False | _ \<Rightarrow> True)"
  shows "api_review review (Some (JObj d)) =
           Inl (no_attribute (json_type_name v) (lit ''strip''))"
proof -
  from assms(1) have "d \<noteq> []"
    by (auto simp: dict_get_def)
  with assms show ?thesis
    by (cases v) (simp_all add: api_review_def Let_def)
qed

theorem api_review_code_not_a_string_witness:
  \<open>api_review (\<lambda>c h. Inr (lit ''{}'')) (Some (JObj [(lit ''code'', JNum (lit ''5''))])) =
   Inl (Exn (lit ''AttributeError'')
          ([39] @ lit ''int'' @ [39] @ lit '' object has no attribute '' @
           [39] @ lit ''strip'' @ [39]))\<close>
proof -
  have g: "dict_get [(lit ''code'', JNum (lit ''5''))] (lit ''code'') = Some (JNum (lit ''5''))"
    by (simp add: dict_get_def)
  have n: "(case JNum (lit ''5'') of JStr s \<Rightarrow> False | _ \<Rightarrow> True)"
    by simp
  from api_review_code_not_a_string [OF g n] show ?thesis
    by (simp add: no_attribute_def lit_def isdigit_def)
qed

end
